theory Spec2Isabelle
  imports Main "HOL-Library.Word" "HOL-Library.Stream"
begin

section \<open>The XC120 bridge command protocol (\<open>_xcbridge_comm.py\<close>)\<close>

text \<open>
  A shallow embedding of \<open>src/acconeer/exptool/flash/_xc120/_xcbridge_comm.py\<close>:
  the request and response packet classes, the table \<open>_command_packets\<close> and the class
  \<open>XCCommunication\<close>. Python exceptions are values of \<open>py_exn\<close>; a method that can
  raise returns \<open>py_exn + 'a\<close> with \<open>Inl\<close> the exception raised.
\<close>

subsection \<open>Bytes, exceptions and the Python built-ins used\<close>

type_synonym byte = "8 word"
type_synonym bytes = "byte list"

datatype py_exn =
    OSError string
  | TimeoutError string
  | CommandFailed string
  | QueueEmpty
  | SerialException
  | AttributeError
  | TypeError
  | IndexError
  | UnicodeDecodeError
  | OverflowError
  | RecursionError

text \<open>\<open>int.from_bytes(bs, byteorder="little")\<close>: total, the empty slice gives 0.\<close>

fun from_bytes_little :: "bytes \<Rightarrow> nat" where
  "from_bytes_little [] = 0"
| "from_bytes_little (b # bs) = unat b + 256 * from_bytes_little bs"

text \<open>
  \<open>n.to_bytes(len, byteorder="little")\<close> for a non-negative \<open>n\<close>: the \<open>len\<close> low
  base-256 digits, lowest first; \<open>OverflowError\<close> when \<open>n\<close> does not fit.
\<close>

fun to_bytes_little :: "nat \<Rightarrow> nat \<Rightarrow> py_exn + bytes" where
  "to_bytes_little n 0 = (if n = 0 then Inr [] else Inl OverflowError)"
| "to_bytes_little n (Suc len) =
     (case to_bytes_little (n div 256) len of
        Inl e \<Rightarrow> Inl e
      | Inr bs \<Rightarrow> Inr (of_nat (n mod 256) # bs))"

text \<open>\<open>bs.decode("ascii")\<close>: every byte below 128, else \<open>UnicodeDecodeError\<close>.\<close>

definition decode_ascii :: "bytes \<Rightarrow> py_exn + string" where
  "decode_ascii bs =
     (if list_all (\<lambda>b. b < 128) bs then Inr (map (\<lambda>b. char_of (unat b)) bs)
      else Inl UnicodeDecodeError)"

text \<open>\<open>str(n)\<close> of a non-negative integer, as an f-string formats \<open>{status}\<close>.\<close>

definition digit_char :: "nat \<Rightarrow> char" where
  "digit_char d = char_of (48 + d)"

function str_nat :: "nat \<Rightarrow> string" where
  "str_nat n = (if n < 10 then [digit_char n] else str_nat (n div 10) @ [digit_char (n mod 10)])"
  by pat_completeness auto
termination
  by (relation "measure id") auto

declare str_nat.simps [simp del]

subsection \<open>Packets\<close>

text \<open>
  Modelled from the spec: the base class \<open>Packet\<close> of \<open>_uart_protocol\<close> is not among the
  sources. A packet is the spec's frame, a type identifier and the payload bytes that
  \<open>Packet.__init__(payload)\<close> receives.
\<close>

record packet =
  packet_type :: nat
  payload :: bytes

text \<open>
  \<open>XcCommandResponsePacket.__init__\<close>: the slices \<open>payload[0:2]\<close> and \<open>payload[2:]\<close>
  never raise, also on a payload of fewer than two bytes.
\<close>

record response_packet = packet +
  command_id :: nat
  command_payload :: bytes

definition XcCommandResponsePacket :: "bytes \<Rightarrow> response_packet" where
  "XcCommandResponsePacket p =
     \<lparr>packet_type = 0xF2, payload = p,
      command_id = from_bytes_little (take 2 p),
      command_payload = drop 2 p\<rparr>"

text \<open>
  \<open>XcCommandRequestPacket.__init__\<close>: the two bytes of \<open>command_id\<close> are inserted in
  front of \<open>command_payload\<close>, which is then the payload of the packet.
\<close>

definition XcCommandRequestPacket :: "nat \<Rightarrow> bytes \<Rightarrow> py_exn + packet" where
  "XcCommandRequestPacket cid cmd_payload =
     (case to_bytes_little cid 2 of
        Inl e \<Rightarrow> Inl e
      | Inr hdr \<Rightarrow> Inr \<lparr>packet_type = 0xF2, payload = hdr @ cmd_payload\<rparr>)"

definition GetLastErrorRequestPacket :: "py_exn + packet" where
  "GetLastErrorRequestPacket = XcCommandRequestPacket 0x0002 []"

definition GetAppSwVersionRequestPacket :: "py_exn + packet" where
  "GetAppSwVersionRequestPacket = XcCommandRequestPacket 0x010A []"

definition GetAppSwNameRequestPacket :: "py_exn + packet" where
  "GetAppSwNameRequestPacket = XcCommandRequestPacket 0x010B []"

definition DfuRebootRequestPacket :: "py_exn + packet" where
  "DfuRebootRequestPacket = XcCommandRequestPacket 0xFFFF []"

text \<open>
  The three response classes. Each keeps the command payload; \<open>get_status\<close> is a method
  of all three, the text getter has a different name in each, so calling the getter of
  another class raises \<open>AttributeError\<close>.
\<close>

datatype command_response =
    GetLastErrorResponsePacket bytes
  | GetAppSwVersionResponsePacket bytes
  | GetAppSwNameResponsePacket bytes

fun response_payload :: "command_response \<Rightarrow> bytes" where
  "response_payload (GetLastErrorResponsePacket p) = p"
| "response_payload (GetAppSwVersionResponsePacket p) = p"
| "response_payload (GetAppSwNameResponsePacket p) = p"

fun response_command_id :: "command_response \<Rightarrow> nat" where
  "response_command_id (GetLastErrorResponsePacket p) = 0x0002"
| "response_command_id (GetAppSwVersionResponsePacket p) = 0x010A"
| "response_command_id (GetAppSwNameResponsePacket p) = 0x010B"

text \<open>\<open>self.payload[0]\<close> raises \<open>IndexError\<close> on an empty payload.\<close>

definition get_status :: "command_response \<Rightarrow> py_exn + nat" where
  "get_status r = (case response_payload r of [] \<Rightarrow> Inl IndexError | b # _ \<Rightarrow> Inr (unat b))"

fun get_response_data :: "command_response \<Rightarrow> py_exn + string" where
  "get_response_data (GetLastErrorResponsePacket p) = decode_ascii (drop 1 p)"
| "get_response_data _ = Inl AttributeError"

fun get_version :: "command_response \<Rightarrow> py_exn + string" where
  "get_version (GetAppSwVersionResponsePacket p) = decode_ascii (drop 1 p)"
| "get_version _ = Inl AttributeError"

fun get_name :: "command_response \<Rightarrow> py_exn + string" where
  "get_name (GetAppSwNameResponsePacket p) = decode_ascii (drop 1 p)"
| "get_name _ = Inl AttributeError"

text \<open>The table \<open>_command_packets\<close>.\<close>

definition command_packets :: "nat \<rightharpoonup> (bytes \<Rightarrow> command_response)" where
  "command_packets =
     [0x0002 \<mapsto> GetLastErrorResponsePacket,
      0x010A \<mapsto> GetAppSwVersionResponsePacket,
      0x010B \<mapsto> GetAppSwNameResponsePacket]"

text \<open>
  \<open>get_command_packet\<close>: \<open>dict.get\<close> gives \<open>None\<close> for an absent key, and calling
  \<open>None\<close> raises \<open>TypeError\<close>.
\<close>

definition get_command_packet :: "response_packet \<Rightarrow> py_exn + command_response" where
  "get_command_packet r =
     (case command_packets (command_id r) of
        None \<Rightarrow> Inl TypeError
      | Some cls \<Rightarrow> Inr (cls (command_payload r)))"

subsection \<open>The session object and its environment\<close>

text \<open>
  Modelled from the spec: \<open>serial.Serial\<close> and the class \<open>UartReader\<close> of
  \<open>_uart_protocol\<close> are not among the sources. The environment records what they do as
  far as the bridge observes it: \<open>held\<close> are the device paths whose serial handle is
  open (opened with \<open>exclusive=True\<close>, so opening a held path fails; the environment
  keeps no list of the devices present, so the failure of the constructor on a path that
  names no device is not part of \<open>serial_Serial\<close>), \<open>reader_alive\<close>
  says that the background reader runs, \<open>tx\<close> are the packets written to the serial
  port, oldest first, and \<open>rx\<close> gives the outcome of each successive \<open>wait_packet\<close>
  for the command channel: \<open>Some p\<close> when a frame with payload \<open>p\<close> arrives before the
  deadline, \<open>None\<close> when the wait ends with \<open>queue.Empty\<close>. The framing done by
  \<open>Packet.get_byte_array\<close> is left to the transport: \<open>tx\<close> holds the packets
  themselves.
\<close>

record world =
  held :: "string list"
  reader_alive :: bool
  tx :: "packet list"
  rx :: "bytes option stream"

datatype serial = Serial string

text \<open>
  The fields of an \<open>XCCommunication\<close> object. \<open>_timeout\<close> is only handed on to
  \<open>wait_packet\<close>, whose outcome is given by \<open>rx\<close>; it is left out.
\<close>

record session =
  ser :: "serial option"
  reader_started :: bool

definition serial_Serial :: "string \<Rightarrow> world \<Rightarrow> (py_exn + serial) \<times> world" where
  "serial_Serial port w =
     (if port \<in> set (held w) then (Inl SerialException, w)
      else (Inr (Serial port), w\<lparr>held := port # held w\<rparr>))"

definition wait_packet :: "nat \<Rightarrow> world \<Rightarrow> (py_exn + response_packet) \<times> world" where
  "wait_packet ptype w =
     (case shd (rx w) of
        None \<Rightarrow> (Inl QueueEmpty, w\<lparr>rx := stl (rx w)\<rparr>)
      | Some p \<Rightarrow> (Inr (XcCommandResponsePacket p), w\<lparr>rx := stl (rx w)\<rparr>))"

text \<open>\<open>XCCommunication.__init__\<close>; \<open>system\<close> is the value of \<open>platform.system()\<close>.\<close>

definition XCCommunication :: "string \<Rightarrow> string \<Rightarrow> world \<Rightarrow> (py_exn + session) \<times> world" where
  "XCCommunication system port w =
     (if system \<noteq> ''Linux'' then (Inl (OSError ''Module only supports Linux.''), w)
      else
        (case serial_Serial port w of
           (Inl e, w1) \<Rightarrow> (Inl e, w1)
         | (Inr h, w1) \<Rightarrow>
             (Inr \<lparr>ser = Some h, reader_started = True\<rparr>, w1\<lparr>reader_alive := True\<rparr>)))"

definition stop :: "session \<Rightarrow> world \<Rightarrow> session \<times> world" where
  "stop self w =
     (if reader_started self
      then (self\<lparr>reader_started := False\<rparr>, w\<lparr>reader_alive := False\<rparr>)
      else (self, w))"

text \<open>
  \<open>close\<close>: after \<open>stop\<close>, \<open>self._ser.close()\<close> raises \<open>AttributeError\<close> when
  \<open>_ser\<close> is \<open>None\<close>; otherwise the handle is released and \<open>_ser\<close> becomes \<open>None\<close>.
\<close>

definition close :: "session \<Rightarrow> world \<Rightarrow> (py_exn + unit) \<times> session \<times> world" where
  "close self w =
     (case stop self w of
        (self1, w1) \<Rightarrow>
          (case ser self1 of
             None \<Rightarrow> (Inl AttributeError, self1, w1)
           | Some (Serial port) \<Rightarrow>
               (Inr (), self1\<lparr>ser := None\<rparr>, w1\<lparr>held := remove1 port (held w1)\<rparr>)))"

text \<open>\<open>_send_packet\<close>: \<open>self._ser.write\<close> raises \<open>AttributeError\<close> when \<open>_ser\<close> is \<open>None\<close>.\<close>

definition send_packet :: "session \<Rightarrow> packet \<Rightarrow> world \<Rightarrow> (py_exn + unit) \<times> world" where
  "send_packet self p w =
     (case ser self of
        None \<Rightarrow> (Inl AttributeError, w)
      | Some h \<Rightarrow> (Inr (), w\<lparr>tx := tx w @ [p]\<rparr>))"

text \<open>
  \<open>_execute_request\<close>: the \<open>try\<close> block covers the three statements, and the handler
  turns \<open>queue.Empty\<close>, and nothing else, into \<open>TimeoutError\<close>.
\<close>

definition except_queue_Empty :: "py_exn \<Rightarrow> py_exn" where
  "except_queue_Empty e = (if e = QueueEmpty then TimeoutError ''_execute_request timeout'' else e)"

definition execute_request :: "session \<Rightarrow> packet \<Rightarrow> world \<Rightarrow> (py_exn + command_response) \<times> world" where
  "execute_request self p w =
     (case send_packet self p w of
        (Inl e, w1) \<Rightarrow> (Inl (except_queue_Empty e), w1)
      | (Inr _, w1) \<Rightarrow>
          (case wait_packet 0xF2 w1 of
             (Inl e, w2) \<Rightarrow> (Inl (except_queue_Empty e), w2)
           | (Inr response, w2) \<Rightarrow>
               (case get_command_packet response of
                  Inl e \<Rightarrow> (Inl (except_queue_Empty e), w2)
                | Inr c \<Rightarrow> (Inr c, w2))))"

text \<open>
  The two statements \<open>error_msg = self.get_last_error()\<close> and
  \<open>raise CommandFailed(f"Command failed with code {status} [{error_msg}]")\<close>, applied to
  the outcome of \<open>get_last_error\<close>: an exception raised there goes through, a returned
  message is wrapped.
\<close>

definition command_failed :: "nat \<Rightarrow> string \<Rightarrow> py_exn" where
  "command_failed status error_msg =
     CommandFailed (''Command failed with code '' @ str_nat status @ '' ['' @ error_msg @ '']'')"

definition raise_command_failed ::
  "nat \<Rightarrow> (py_exn + string) \<times> world \<Rightarrow> ((py_exn + string) \<times> world) option" where
  "raise_command_failed status r =
     (case r of
        (Inl e, w2) \<Rightarrow> Some (Inl e, w2)
      | (Inr error_msg, w2) \<Rightarrow> Some (Inl (command_failed status error_msg), w2))"

text \<open>
  \<open>get_last_error\<close> calls itself when the status is not 0, once for each such reply.
  Both getters run before the status is tested. The method is given twice. Here it is
  as its text reads, with no account of the stack: the recursion need not end, so the
  result is an option and \<open>None\<close> is a recursion without end. The interpreter does bound
  the stack; \<open>get_last_error_limited\<close> below is the method under that bound, and the
  two give the same outcome on every call that does not end in \<open>RecursionError\<close>.
\<close>

partial_function (option) get_last_error ::
  "session \<Rightarrow> world \<Rightarrow> ((py_exn + string) \<times> world) option" where
  "get_last_error self w =
     (case GetLastErrorRequestPacket of
        Inl e \<Rightarrow> Some (Inl e, w)
      | Inr p \<Rightarrow>
          (case execute_request self p w of
             (Inl e, w1) \<Rightarrow> Some (Inl e, w1)
           | (Inr response, w1) \<Rightarrow>
               (case get_status response of
                  Inl e \<Rightarrow> Some (Inl e, w1)
                | Inr status \<Rightarrow>
                    (case get_response_data response of
                       Inl e \<Rightarrow> Some (Inl e, w1)
                     | Inr response_data \<Rightarrow>
                         if status \<noteq> 0 then
                           Option.bind (get_last_error self w1) (raise_command_failed status)
                         else Some (Inr response_data, w1)))))"

text \<open>
  \<open>get_last_error\<close> under the recursion limit of the interpreter, which raises
  \<open>RecursionError\<close> when a call would nest deeper than the limit allows. \<open>depth\<close> is
  the number of nested invocations of \<open>get_last_error\<close> for which the stack still has
  room when the method is called, the calls that one invocation makes itself being
  counted with it. With no room left the call raises \<open>RecursionError\<close>; otherwise the
  body runs, and the invocation it makes has one less. Nothing in the file catches
  \<open>RecursionError\<close>, so it passes through every enclosing invocation.
\<close>

definition command_failed_of ::
  "nat \<Rightarrow> (py_exn + string) \<times> world \<Rightarrow> (py_exn + string) \<times> world" where
  "command_failed_of status r =
     (case r of
        (Inl e, w2) \<Rightarrow> (Inl e, w2)
      | (Inr error_msg, w2) \<Rightarrow> (Inl (command_failed status error_msg), w2))"

fun get_last_error_limited ::
  "nat \<Rightarrow> session \<Rightarrow> world \<Rightarrow> (py_exn + string) \<times> world" where
  "get_last_error_limited 0 self w = (Inl RecursionError, w)"
| "get_last_error_limited (Suc depth) self w =
     (case GetLastErrorRequestPacket of
        Inl e \<Rightarrow> (Inl e, w)
      | Inr p \<Rightarrow>
          (case execute_request self p w of
             (Inl e, w1) \<Rightarrow> (Inl e, w1)
           | (Inr response, w1) \<Rightarrow>
               (case get_status response of
                  Inl e \<Rightarrow> (Inl e, w1)
                | Inr status \<Rightarrow>
                    (case get_response_data response of
                       Inl e \<Rightarrow> (Inl e, w1)
                     | Inr response_data \<Rightarrow>
                         if status \<noteq> 0 then
                           command_failed_of status (get_last_error_limited depth self w1)
                         else (Inr response_data, w1)))))"

definition get_app_sw_version :: "session \<Rightarrow> world \<Rightarrow> ((py_exn + string) \<times> world) option" where
  "get_app_sw_version self w =
     (case GetAppSwVersionRequestPacket of
        Inl e \<Rightarrow> Some (Inl e, w)
      | Inr p \<Rightarrow>
          (case execute_request self p w of
             (Inl e, w1) \<Rightarrow> Some (Inl e, w1)
           | (Inr response, w1) \<Rightarrow>
               (case get_status response of
                  Inl e \<Rightarrow> Some (Inl e, w1)
                | Inr status \<Rightarrow>
                    (case get_version response of
                       Inl e \<Rightarrow> Some (Inl e, w1)
                     | Inr version \<Rightarrow>
                         if status \<noteq> 0 then
                           Option.bind (get_last_error self w1) (raise_command_failed status)
                         else Some (Inr version, w1)))))"

definition get_app_sw_name :: "session \<Rightarrow> world \<Rightarrow> ((py_exn + string) \<times> world) option" where
  "get_app_sw_name self w =
     (case GetAppSwNameRequestPacket of
        Inl e \<Rightarrow> Some (Inl e, w)
      | Inr p \<Rightarrow>
          (case execute_request self p w of
             (Inl e, w1) \<Rightarrow> Some (Inl e, w1)
           | (Inr response, w1) \<Rightarrow>
               (case get_status response of
                  Inl e \<Rightarrow> Some (Inl e, w1)
                | Inr status \<Rightarrow>
                    (case get_name response of
                       Inl e \<Rightarrow> Some (Inl e, w1)
                     | Inr name \<Rightarrow>
                         if status \<noteq> 0 then
                           Option.bind (get_last_error self w1) (raise_command_failed status)
                         else Some (Inr name, w1)))))"

definition dfu_reboot :: "session \<Rightarrow> world \<Rightarrow> (py_exn + unit) \<times> world" where
  "dfu_reboot self w =
     (case DfuRebootRequestPacket of
        Inl e \<Rightarrow> (Inl e, w)
      | Inr p \<Rightarrow> send_packet self p w)"

subsection \<open>Replies and example sessions used in the statements\<close>

text \<open>
  A get-last-error response frame with status byte \<open>fst r\<close> and result bytes \<open>snd r\<close>,
  and the replies of that kind whose status is not 0 and whose result is ASCII.
\<close>

definition nack_frame :: "byte \<times> bytes \<Rightarrow> bytes option" where
  "nack_frame r = Some (0x02 # 0x00 # fst r # snd r)"

definition is_nack :: "byte \<times> bytes \<Rightarrow> bool" where
  "is_nack r \<longleftrightarrow> fst r \<noteq> 0 \<and> list_all (\<lambda>b. b < 128) (snd r)"

text \<open>
  The session that \<open>XCCommunication("/dev/ttyUSB0")\<close> builds on Linux, and the
  environment it then runs in when the waits have the outcomes \<open>s\<close>.
\<close>

definition open_session :: session where
  "open_session = \<lparr>ser = Some (Serial ''/dev/ttyUSB0''), reader_started = True\<rparr>"

definition world_with :: "bytes option stream \<Rightarrow> world" where
  "world_with s = \<lparr>held = [''/dev/ttyUSB0''], reader_alive = True, tx = [], rx = s\<rparr>"

section \<open>Properties\<close>

subsection \<open>Auxiliary facts\<close>

lemma to_bytes_little_2:
  "to_bytes_little n 2 =
     (if n < 65536 then Inr [of_nat (n mod 256), of_nat (n div 256)] else Inl OverflowError)"
proof -
  have "to_bytes_little n (Suc (Suc 0)) =
      (if n div 256 div 256 = 0 then Inr [of_nat (n mod 256), of_nat (n div 256 mod 256)]
       else Inl OverflowError)"
    by simp
  moreover have "n div 256 div 256 = 0 \<longleftrightarrow> n < 65536"
    by (simp add: div_mult2_eq [symmetric] div_eq_0_iff)
  moreover have "n < 65536 \<Longrightarrow> n div 256 mod 256 = n div 256"
    by (simp add: less_mult_imp_div_less)
  ultimately show ?thesis
    by (simp add: numeral_2_eq_2)
qed

lemma request_packets:
  "GetLastErrorRequestPacket = Inr \<lparr>packet_type = 0xF2, payload = [0x02, 0x00]\<rparr>"
  "GetAppSwVersionRequestPacket = Inr \<lparr>packet_type = 0xF2, payload = [0x0A, 0x01]\<rparr>"
  "GetAppSwNameRequestPacket = Inr \<lparr>packet_type = 0xF2, payload = [0x0B, 0x01]\<rparr>"
  "DfuRebootRequestPacket = Inr \<lparr>packet_type = 0xF2, payload = [0xFF, 0xFF]\<rparr>"
  by (simp_all add: GetLastErrorRequestPacket_def GetAppSwVersionRequestPacket_def
      GetAppSwNameRequestPacket_def DfuRebootRequestPacket_def XcCommandRequestPacket_def
      to_bytes_little_2)

lemma execute_request_closed:
  "ser self = None \<Longrightarrow> execute_request self p w = (Inl AttributeError, w)"
  by (simp add: execute_request_def send_packet_def except_queue_Empty_def)

lemma execute_request_timeout:
  "ser self = Some h \<Longrightarrow> shd (rx w) = None \<Longrightarrow>
   execute_request self p w =
     (Inl (TimeoutError ''_execute_request timeout''), w\<lparr>tx := tx w @ [p], rx := stl (rx w)\<rparr>)"
  by (simp add: execute_request_def send_packet_def wait_packet_def except_queue_Empty_def)

lemma execute_request_frame:
  "ser self = Some h \<Longrightarrow> shd (rx w) = Some pl \<Longrightarrow>
   execute_request self p w =
     (get_command_packet (XcCommandResponsePacket pl), w\<lparr>tx := tx w @ [p], rx := stl (rx w)\<rparr>)"
  by (simp add: execute_request_def send_packet_def wait_packet_def except_queue_Empty_def
      get_command_packet_def split: option.splits)

lemma get_command_packet_cases:
  "get_command_packet (XcCommandResponsePacket pl) =
     (let cid = from_bytes_little (take 2 pl) in
      if cid = 0x0002 then Inr (GetLastErrorResponsePacket (drop 2 pl))
      else if cid = 0x010A then Inr (GetAppSwVersionResponsePacket (drop 2 pl))
      else if cid = 0x010B then Inr (GetAppSwNameResponsePacket (drop 2 pl))
      else Inl TypeError)"
  by (simp add: get_command_packet_def XcCommandResponsePacket_def command_packets_def Let_def)

lemma open_session_built:
  "XCCommunication ''Linux'' ''/dev/ttyUSB0''
     \<lparr>held = [], reader_alive = False, tx = [], rx = s\<rparr> = (Inr open_session, world_with s)"
  by (simp add: XCCommunication_def serial_Serial_def open_session_def world_with_def)

lemma le16_value:
  "n < 65536 \<Longrightarrow>
   unat (of_nat (n mod 256) :: byte) + 256 * unat (of_nat (n div 256) :: byte) = n"
proof -
  assume n: "n < 65536"
  have a: "unat (of_nat (n mod 256) :: byte) = n mod 256"
    by (simp add: unat_of_nat)
  from n have "n div 256 < 256" by (simp add: less_mult_imp_div_less)
  then have b: "unat (of_nat (n div 256) :: byte) = n div 256"
    by (simp add: unat_of_nat)
  show ?thesis by (simp add: a b)
qed

subsection \<open>C10: no session on a platform other than Linux\<close>

text \<open>
  C10. When \<open>platform.system()\<close> is not \<open>"Linux"\<close>, the constructor raises
  \<open>OSError("Module only supports Linux.")\<close> whatever the port: no session object is
  returned, and the environment is the one it started from, so no serial handle has been
  opened and no reader started.
\<close>

theorem init_non_linux:
  "system \<noteq> ''Linux'' \<Longrightarrow>
   XCCommunication system port w = (Inl (OSError ''Module only supports Linux.''), w)"
  by (simp add: XCCommunication_def)

theorem init_non_linux_witness:
  "''Windows'' \<noteq> ''Linux'' \<and>
   XCCommunication ''Windows'' ''/dev/ttyUSB0'' (world_with (sconst None)) =
     (Inl (OSError ''Module only supports Linux.''), world_with (sconst None))"
  using init_non_linux [of "''Windows''" "''/dev/ttyUSB0''" "world_with (sconst None)"] by simp

subsection \<open>C8: the encoding of a request\<close>

text \<open>
  C8. For every command identifier that fits 16 bits and every parameter byte string, the
  payload of the request packet is the low byte of \<open>command_id\<close>, its high byte, and then
  the parameter bytes; read back as a little-endian integer the two bytes are
  \<open>command_id\<close>. The four built-in requests have no parameters: their payload is the two
  bytes of their identifier.
\<close>

theorem request_encoding:
  "(cid < 65536 \<longrightarrow>
      XcCommandRequestPacket cid params =
        Inr \<lparr>packet_type = 0xF2, payload = [of_nat (cid mod 256), of_nat (cid div 256)] @ params\<rparr>
      \<and> from_bytes_little [of_nat (cid mod 256), of_nat (cid div 256)] = cid)
   \<and> GetLastErrorRequestPacket = Inr \<lparr>packet_type = 0xF2, payload = [0x02, 0x00]\<rparr>
   \<and> GetAppSwVersionRequestPacket = Inr \<lparr>packet_type = 0xF2, payload = [0x0A, 0x01]\<rparr>
   \<and> GetAppSwNameRequestPacket = Inr \<lparr>packet_type = 0xF2, payload = [0x0B, 0x01]\<rparr>
   \<and> DfuRebootRequestPacket = Inr \<lparr>packet_type = 0xF2, payload = [0xFF, 0xFF]\<rparr>"
  by (simp add: request_packets XcCommandRequestPacket_def to_bytes_little_2 le16_value)

theorem request_encoding_witness:
  "(0x010A :: nat) < 65536 \<and>
   XcCommandRequestPacket 0x010A [0x07, 0x08] =
     Inr \<lparr>packet_type = 0xF2, payload = [0x0A, 0x01, 0x07, 0x08]\<rparr>"
  using request_encoding [of "0x010A" "[0x07, 0x08]"] by simp

subsection \<open>One step of \<open>get_last_error\<close> on an open session\<close>

lemma get_last_error_timeout:
  "ser self = Some h \<Longrightarrow> shd (rx w) = None \<Longrightarrow>
   get_last_error self w =
     Some (Inl (TimeoutError ''_execute_request timeout''),
           w\<lparr>tx := tx w @ [\<lparr>packet_type = 0xF2, payload = [0x02, 0x00]\<rparr>], rx := stl (rx w)\<rparr>)"
  by (subst get_last_error.simps) (simp add: request_packets execute_request_timeout)

lemma get_last_error_ack:
  "ser self = Some h \<Longrightarrow> shd (rx w) = Some (0x02 # 0x00 # 0 # d) \<Longrightarrow>
   list_all (\<lambda>b. b < 128) d \<Longrightarrow>
   get_last_error self w =
     Some (Inr (map (\<lambda>b. char_of (unat b)) d),
           w\<lparr>tx := tx w @ [\<lparr>packet_type = 0xF2, payload = [0x02, 0x00]\<rparr>], rx := stl (rx w)\<rparr>)"
  by (subst get_last_error.simps)
     (simp add: request_packets execute_request_frame get_command_packet_cases get_status_def
        decode_ascii_def)

lemma get_last_error_nack:
  "ser self = Some h \<Longrightarrow> shd (rx w) = Some (0x02 # 0x00 # st # d) \<Longrightarrow> st \<noteq> 0 \<Longrightarrow>
   list_all (\<lambda>b. b < 128) d \<Longrightarrow>
   get_last_error self w =
     Option.bind
       (get_last_error self
          (w\<lparr>tx := tx w @ [\<lparr>packet_type = 0xF2, payload = [0x02, 0x00]\<rparr>], rx := stl (rx w)\<rparr>))
       (raise_command_failed (unat st))"
  by (subst get_last_error.simps)
     (simp add: request_packets execute_request_frame get_command_packet_cases get_status_def
        decode_ascii_def unat_eq_0)

lemma str_nat_digits: "str_nat 3 = ''3''" "str_nat 5 = ''5''" "str_nat 7 = ''7''"
  by code_simp+

lemma ascii_chars:
  "char_of (98 :: nat) = CHR ''b''" "char_of (111 :: nat) = CHR ''o''"
  "char_of (109 :: nat) = CHR ''m''" "char_of (46 :: nat) = CHR ''.''"
  "char_of (48 :: nat) = CHR ''0''" "char_of (49 :: nat) = CHR ''1''"
  "char_of (50 :: nat) = CHR ''2''"
  by code_simp+

subsection \<open>\<open>get_last_error\<close> under the recursion limit\<close>

lemma get_last_error_limited_timeout:
  "ser self = Some h \<Longrightarrow> shd (rx w) = None \<Longrightarrow> 0 < depth \<Longrightarrow>
   get_last_error_limited depth self w =
     (Inl (TimeoutError ''_execute_request timeout''),
      w\<lparr>tx := tx w @ [\<lparr>packet_type = 0xF2, payload = [0x02, 0x00]\<rparr>], rx := stl (rx w)\<rparr>)"
  by (cases depth) (simp_all add: request_packets execute_request_timeout)

lemma get_last_error_limited_ack:
  "ser self = Some h \<Longrightarrow> shd (rx w) = Some (0x02 # 0x00 # 0 # d) \<Longrightarrow>
   list_all (\<lambda>b. b < 128) d \<Longrightarrow> 0 < depth \<Longrightarrow>
   get_last_error_limited depth self w =
     (Inr (map (\<lambda>b. char_of (unat b)) d),
      w\<lparr>tx := tx w @ [\<lparr>packet_type = 0xF2, payload = [0x02, 0x00]\<rparr>], rx := stl (rx w)\<rparr>)"
  by (cases depth)
     (simp_all add: request_packets execute_request_frame get_command_packet_cases get_status_def
        decode_ascii_def)

lemma get_last_error_limited_nack:
  "ser self = Some h \<Longrightarrow> shd (rx w) = Some (0x02 # 0x00 # st # d) \<Longrightarrow> st \<noteq> 0 \<Longrightarrow>
   list_all (\<lambda>b. b < 128) d \<Longrightarrow> 0 < depth \<Longrightarrow>
   get_last_error_limited depth self w =
     command_failed_of (unat st)
       (get_last_error_limited (depth - 1) self
          (w\<lparr>tx := tx w @ [\<lparr>packet_type = 0xF2, payload = [0x02, 0x00]\<rparr>], rx := stl (rx w)\<rparr>))"
  by (cases depth)
     (simp_all add: request_packets execute_request_frame get_command_packet_cases get_status_def
        decode_ascii_def unat_eq_0)

lemma command_failed_of_twice:
  "command_failed_of b (command_failed_of a x) = command_failed_of a x"
  by (auto simp: command_failed_of_def split: prod.splits sum.splits)

lemma command_failed_of_raises: "\<exists>e. fst (command_failed_of a x) = Inl e"
  by (auto simp: command_failed_of_def split: prod.splits sum.splits)

lemma command_failed_of_RecursionError:
  "fst x = Inl RecursionError \<Longrightarrow> fst (command_failed_of a x) = Inl RecursionError"
  by (auto simp: command_failed_of_def split: prod.splits sum.splits)

text \<open>
  A run of nonzero-status replies that fits the depth: each makes \<open>get_last_error\<close>
  send one more request and call itself, and what the innermost call raises or returns
  comes out wrapped with the status of the last reply of the run.
\<close>

lemma get_last_error_limited_nacks:
  assumes "ser self = Some h" and "list_all is_nack ns" and "ns \<noteq> []"
    and "length ns \<le> depth"
  shows "get_last_error_limited depth self (w\<lparr>rx := map nack_frame ns @- s\<rparr>) =
         command_failed_of (unat (fst (last ns)))
           (get_last_error_limited (depth - length ns) self
              (w\<lparr>tx := tx w @ replicate (length ns) \<lparr>packet_type = 0xF2, payload = [0x02, 0x00]\<rparr>,
                 rx := s\<rparr>))"
  using assms(2,3,4)
proof (induction ns arbitrary: w depth)
  case Nil
  then show ?case by simp
next
  case (Cons r ns)
  let ?req = "\<lparr>packet_type = 0xF2, payload = [0x02, 0x00 :: byte]\<rparr>"
  from Cons.prems have "is_nack r" and ns: "list_all is_nack ns"
    by simp_all
  then have r: "fst r \<noteq> 0" "list_all (\<lambda>b. b < 128) (snd r)"
    by (simp_all add: is_nack_def)
  from Cons.prems have depth: "0 < depth" "length ns \<le> depth - 1"
    by simp_all
  have step: "get_last_error_limited depth self (w\<lparr>rx := map nack_frame (r # ns) @- s\<rparr>) =
      command_failed_of (unat (fst r))
        (get_last_error_limited (depth - 1) self
           (w\<lparr>tx := tx w @ [?req], rx := map nack_frame ns @- s\<rparr>))"
    using get_last_error_limited_nack [OF assms(1) _ r depth(1),
        of "w\<lparr>rx := map nack_frame (r # ns) @- s\<rparr>"]
    by (simp add: nack_frame_def)
  show ?case
  proof (cases "ns = []")
    case True
    with step show ?thesis by simp
  next
    case False
    have "get_last_error_limited (depth - 1) self
        ((w\<lparr>tx := tx w @ [?req]\<rparr>)\<lparr>rx := map nack_frame ns @- s\<rparr>) =
        command_failed_of (unat (fst (last ns)))
          (get_last_error_limited (depth - 1 - length ns) self
             (w\<lparr>tx := tx w @ [?req] @ replicate (length ns) ?req, rx := s\<rparr>))"
      using Cons.IH [OF ns False depth(2), of "w\<lparr>tx := tx w @ [?req]\<rparr>"] by simp
    with step False show ?thesis
      by (simp add: command_failed_of_twice)
  qed
qed

text \<open>
  When every wait is answered by a nonzero-status reply, the recursion goes on until the
  stack has no room left, and the call ends in \<open>RecursionError\<close>.
\<close>

lemma get_last_error_limited_exhausted:
  assumes "ser self = Some h"
    and "\<forall>x \<in> sset (rx w). \<exists>r. x = nack_frame r \<and> is_nack r"
  shows "fst (get_last_error_limited depth self w) = Inl RecursionError"
  using assms(2)
proof (induction depth arbitrary: w)
  case 0
  show ?case by simp
next
  case (Suc depth)
  let ?w' = "w\<lparr>tx := tx w @ [\<lparr>packet_type = 0xF2, payload = [0x02, 0x00]\<rparr>], rx := stl (rx w)\<rparr>"
  have "shd (rx w) \<in> sset (rx w)" by (rule shd_sset)
  with Suc.prems obtain r where r: "shd (rx w) = nack_frame r" "is_nack r" by auto
  then have "get_last_error_limited (Suc depth) self w =
      command_failed_of (unat (fst r)) (get_last_error_limited depth self ?w')"
    using get_last_error_limited_nack [OF assms(1), of w "fst r" "snd r" "Suc depth"]
    by (simp add: nack_frame_def is_nack_def)
  moreover have "\<forall>x \<in> sset (rx ?w'). \<exists>r. x = nack_frame r \<and> is_nack r"
    using Suc.prems by (auto dest: stl_sset)
  ultimately show ?case
    using Suc.IH [of ?w'] by (simp add: command_failed_of_RecursionError)
qed

text \<open>
  The two forms of the method agree: whatever the bounded form returns or raises, apart
  from \<open>RecursionError\<close>, is what the unbounded form gives.
\<close>

lemma get_last_error_limited_agrees:
  "get_last_error_limited depth self w = (r, w') \<Longrightarrow> r \<noteq> Inl RecursionError \<Longrightarrow>
   get_last_error self w = Some (r, w')"
proof (induction depth arbitrary: w r w')
  case 0
  then show ?case by simp
next
  case (Suc depth)
  let ?p = "\<lparr>packet_type = 0xF2, payload = [0x02, 0x00 :: byte]\<rparr>"
  obtain er w1 where e: "execute_request self ?p w = (er, w1)"
    by (cases "execute_request self ?p w")
  show ?case
  proof (cases er)
    case failed: (Inl x)
    from Suc.prems(1) have "r = Inl x" "w' = w1"
      by (auto simp: request_packets e failed)
    then show ?thesis
      by (subst get_last_error.simps) (simp add: request_packets e failed)
  next
    case response: (Inr response)
    show ?thesis
    proof (cases "get_status response")
      case no_status: (Inl x)
      from Suc.prems(1) have "r = Inl x" "w' = w1"
        by (auto simp: request_packets e response no_status)
      then show ?thesis
        by (subst get_last_error.simps) (simp add: request_packets e response no_status)
    next
      case status: (Inr status)
      show ?thesis
      proof (cases "get_response_data response")
        case no_data: (Inl x)
        from Suc.prems(1) have "r = Inl x" "w' = w1"
          by (auto simp: request_packets e response status no_data)
        then show ?thesis
          by (subst get_last_error.simps) (simp add: request_packets e response status no_data)
      next
        case data: (Inr response_data)
        show ?thesis
        proof (cases "status = 0")
          case True
          from Suc.prems(1) have "r = Inr response_data" "w' = w1"
            by (auto simp: request_packets e response status data True)
          then show ?thesis
            by (subst get_last_error.simps)
               (simp add: request_packets e response status data True)
        next
          case False
          obtain r1 w2 where inner: "get_last_error_limited depth self w1 = (r1, w2)"
            by (cases "get_last_error_limited depth self w1")
          from Suc.prems(1) have out: "(r, w') = command_failed_of status (r1, w2)"
            by (simp add: request_packets e response status data False inner)
          with Suc.prems(2) have "r1 \<noteq> Inl RecursionError"
            by (auto simp: command_failed_of_def)
          from Suc.IH [OF inner this] have "get_last_error self w1 = Some (r1, w2)" .
          with out show ?thesis
            by (subst get_last_error.simps)
               (auto simp: request_packets e response status data False
                  raise_command_failed_def command_failed_of_def split: sum.splits)
        qed
      qed
    qed
  qed
qed

subsection \<open>C1: \<open>get_last_error\<close> on a nonzero status\<close>

text \<open>
  C1, as stated, fails. With room for a thousand nested invocations, a first reply of
  status 5 and a second of status 0 and text \<open>boom\<close>: \<open>get_last_error\<close> has invoked
  itself (two requests are on the wire) and raises \<open>CommandFailed\<close> instead of
  returning a message; and when every reply carries status 9 it ends in
  \<open>RecursionError\<close>, again without a message.
\<close>

theorem get_last_error_fallback_counterexample:
  "get_last_error_limited 1000 open_session
     (world_with (Some [0x02, 0x00, 0x05] ## Some [0x02, 0x00, 0x00, 0x62, 0x6F, 0x6F, 0x6D] ##
        sconst None)) =
   (Inl (CommandFailed ''Command failed with code 5 [boom]''),
    \<lparr>held = [''/dev/ttyUSB0''], reader_alive = True,
     tx = [\<lparr>packet_type = 0xF2, payload = [0x02, 0x00]\<rparr>,
           \<lparr>packet_type = 0xF2, payload = [0x02, 0x00]\<rparr>],
     rx = sconst None\<rparr>)
   \<and> fst (get_last_error_limited 1000 open_session (world_with (sconst (Some [0x02, 0x00, 0x09])))) =
     Inl RecursionError"
proof -
  let ?req = "\<lparr>packet_type = 0xF2, payload = [0x02, 0x00 :: byte]\<rparr>"
  let ?w0 = "world_with (Some [0x02, 0x00, 0x05] ##
     Some [0x02, 0x00, 0x00, 0x62, 0x6F, 0x6F, 0x6D] ## sconst None)"
  let ?w1 = "?w0\<lparr>tx := tx ?w0 @ [?req], rx := stl (rx ?w0)\<rparr>"
  have o: "ser open_session = Some (Serial ''/dev/ttyUSB0'')"
    by (simp add: open_session_def)
  have inner: "get_last_error_limited 999 open_session ?w1 =
      (Inr ''boom'', ?w1\<lparr>tx := tx ?w1 @ [?req], rx := stl (rx ?w1)\<rparr>)"
    using get_last_error_limited_ack [OF o, of ?w1 "[0x62, 0x6F, 0x6F, 0x6D]" 999]
    by (simp add: world_with_def ascii_chars)
  have "get_last_error_limited 1000 open_session ?w0 =
      command_failed_of (unat (0x05 :: byte)) (get_last_error_limited (1000 - 1) open_session ?w1)"
    by (rule get_last_error_limited_nack [OF o, where d = "[]"]) (simp_all add: world_with_def)
  with inner have first: "get_last_error_limited 1000 open_session ?w0 =
      (Inl (CommandFailed ''Command failed with code 5 [boom]''),
       ?w1\<lparr>tx := tx ?w1 @ [?req], rx := stl (rx ?w1)\<rparr>)"
    by (simp add: command_failed_of_def command_failed_def str_nat_digits)
  have "\<forall>x \<in> sset (rx (world_with (sconst (Some [0x02, 0x00, 0x09])))).
      \<exists>r. x = nack_frame r \<and> is_nack r"
    by (simp add: world_with_def nack_frame_def is_nack_def)
  from get_last_error_limited_exhausted [OF o this, of 1000] first show ?thesis
    by (simp add: world_with_def)
qed

text \<open>
  C1, amended. On an open session, when the get-last-error command replies with nonzero
  status (and ASCII data), \<open>get_last_error\<close> invokes itself again, once for each such
  reply and with no guard of its own. It still terminates, but by raising, never by
  returning a message, whatever follows the first such reply and whatever room the stack
  has. After a run of one or more such replies that the recursion limit admits: when a
  status-0 reply with text \<open>m\<close> follows, it raises \<open>CommandFailed\<close> with the status of
  the last nonzero reply and \<open>m\<close>, one request having been sent for each reply; when a
  timeout follows, it raises \<open>TimeoutError\<close>. When every reply has nonzero status, it
  raises \<open>RecursionError\<close>.
\<close>

theorem get_last_error_nonzero_status:
  assumes "ser self = Some h" and "list_all is_nack ns" and "ns \<noteq> []"
  shows "(length ns < depth \<and> list_all (\<lambda>b. b < 128) m \<longrightarrow>
            get_last_error_limited depth self
              (w\<lparr>rx := map nack_frame ns @- (Some (0x02 # 0x00 # 0 # m) ## rest)\<rparr>) =
            (Inl (CommandFailed
                    (''Command failed with code '' @ str_nat (unat (fst (last ns))) @ '' ['' @
                     map (\<lambda>b. char_of (unat b)) m @ '']'')),
             w\<lparr>tx := tx w @
                   replicate (Suc (length ns)) \<lparr>packet_type = 0xF2, payload = [0x02, 0x00]\<rparr>,
                rx := rest\<rparr>))
       \<and> (length ns < depth \<longrightarrow>
            get_last_error_limited depth self (w\<lparr>rx := map nack_frame ns @- (None ## rest)\<rparr>) =
            (Inl (TimeoutError ''_execute_request timeout''),
             w\<lparr>tx := tx w @
                   replicate (Suc (length ns)) \<lparr>packet_type = 0xF2, payload = [0x02, 0x00]\<rparr>,
                rx := rest\<rparr>))
       \<and> (\<exists>e. fst (get_last_error_limited depth self (w\<lparr>rx := map nack_frame ns @- rest\<rparr>)) = Inl e)
       \<and> ((\<forall>x \<in> sset s. \<exists>r. x = nack_frame r \<and> is_nack r) \<longrightarrow>
            fst (get_last_error_limited depth self (w\<lparr>rx := s\<rparr>)) = Inl RecursionError)"
proof (intro conjI impI)
  let ?req = "\<lparr>packet_type = 0xF2, payload = [0x02, 0x00 :: byte]\<rparr>"
  let ?sent = "w\<lparr>tx := tx w @ replicate (length ns) ?req\<rparr>"
  have app: "tx w @ replicate (length ns) ?req @ [?req] = tx w @ replicate (Suc (length ns)) ?req"
    by (simp add: replicate_append_same)
  {
    assume a: "length ns < depth \<and> list_all (\<lambda>b. b < 128) m"
    then have fits: "length ns \<le> depth" and room: "0 < depth - length ns"
      by simp_all
    have "get_last_error_limited (depth - length ns) self
          (?sent\<lparr>rx := Some (0x02 # 0x00 # 0 # m) ## rest\<rparr>) =
        (Inr (map (\<lambda>b. char_of (unat b)) m),
         w\<lparr>tx := tx w @ replicate (Suc (length ns)) ?req, rx := rest\<rparr>)"
      using get_last_error_limited_ack [OF assms(1) _ _ room,
          of "?sent\<lparr>rx := Some (0x02 # 0x00 # 0 # m) ## rest\<rparr>" m] a app
      by simp
    then show "get_last_error_limited depth self
              (w\<lparr>rx := map nack_frame ns @- (Some (0x02 # 0x00 # 0 # m) ## rest)\<rparr>) =
            (Inl (CommandFailed
                    (''Command failed with code '' @ str_nat (unat (fst (last ns))) @ '' ['' @
                     map (\<lambda>b. char_of (unat b)) m @ '']'')),
             w\<lparr>tx := tx w @ replicate (Suc (length ns)) ?req, rx := rest\<rparr>)"
      by (simp add: get_last_error_limited_nacks [OF assms fits] command_failed_of_def
          command_failed_def)
  }
  {
    assume a: "length ns < depth"
    then have fits: "length ns \<le> depth" and room: "0 < depth - length ns"
      by simp_all
    have "get_last_error_limited (depth - length ns) self (?sent\<lparr>rx := None ## rest\<rparr>) =
        (Inl (TimeoutError ''_execute_request timeout''),
         w\<lparr>tx := tx w @ replicate (Suc (length ns)) ?req, rx := rest\<rparr>)"
      using get_last_error_limited_timeout [OF assms(1) _ room, of "?sent\<lparr>rx := None ## rest\<rparr>"]
        app
      by simp
    then show "get_last_error_limited depth self (w\<lparr>rx := map nack_frame ns @- (None ## rest)\<rparr>) =
        (Inl (TimeoutError ''_execute_request timeout''),
         w\<lparr>tx := tx w @ replicate (Suc (length ns)) ?req, rx := rest\<rparr>)"
      by (simp add: get_last_error_limited_nacks [OF assms fits] command_failed_of_def)
  }
  show "\<exists>e. fst (get_last_error_limited depth self (w\<lparr>rx := map nack_frame ns @- rest\<rparr>)) = Inl e"
  proof (cases depth)
    case 0
    then show ?thesis by simp
  next
    case (Suc d)
    from assms(2,3) obtain r ns' where ns: "ns = r # ns'" and r: "is_nack r"
      by (cases ns) auto
    have "get_last_error_limited depth self (w\<lparr>rx := map nack_frame ns @- rest\<rparr>) =
        command_failed_of (unat (fst r))
          (get_last_error_limited (depth - 1) self
             (w\<lparr>tx := tx w @ [?req], rx := map nack_frame ns' @- rest\<rparr>))"
      using get_last_error_limited_nack [OF assms(1), of "w\<lparr>rx := map nack_frame ns @- rest\<rparr>"
          "fst r" "snd r" depth] r Suc
      by (simp add: ns nack_frame_def is_nack_def)
    then show ?thesis
      by (simp add: command_failed_of_raises)
  qed
  {
    assume "\<forall>x \<in> sset s. \<exists>r. x = nack_frame r \<and> is_nack r"
    then show "fst (get_last_error_limited depth self (w\<lparr>rx := s\<rparr>)) = Inl RecursionError"
      by (intro get_last_error_limited_exhausted [OF assms(1)]) simp
  }
qed

theorem get_last_error_nonzero_status_witness:
  "ser open_session = Some (Serial ''/dev/ttyUSB0'')
   \<and> list_all is_nack [(0x05, []), (0x07, [0x78])]
   \<and> get_last_error_limited 1000 open_session
        (world_with (Some [0x02, 0x00, 0x05] ## Some [0x02, 0x00, 0x07, 0x78] ##
           Some [0x02, 0x00, 0x00, 0x62, 0x6F, 0x6F, 0x6D] ## sconst None)) =
      (Inl (CommandFailed ''Command failed with code 7 [boom]''),
       \<lparr>held = [''/dev/ttyUSB0''], reader_alive = True,
        tx = [\<lparr>packet_type = 0xF2, payload = [0x02, 0x00]\<rparr>,
              \<lparr>packet_type = 0xF2, payload = [0x02, 0x00]\<rparr>,
              \<lparr>packet_type = 0xF2, payload = [0x02, 0x00]\<rparr>],
        rx = sconst None\<rparr>)
   \<and> get_last_error_limited 1000 open_session
        (world_with (Some [0x02, 0x00, 0x05] ## Some [0x02, 0x00, 0x07, 0x78] ## None ##
           sconst None)) =
      (Inl (TimeoutError ''_execute_request timeout''),
       \<lparr>held = [''/dev/ttyUSB0''], reader_alive = True,
        tx = [\<lparr>packet_type = 0xF2, payload = [0x02, 0x00]\<rparr>,
              \<lparr>packet_type = 0xF2, payload = [0x02, 0x00]\<rparr>,
              \<lparr>packet_type = 0xF2, payload = [0x02, 0x00]\<rparr>],
        rx = sconst None\<rparr>)
   \<and> fst (get_last_error_limited 1000 open_session (world_with (sconst (Some [0x02, 0x00, 0x05])))) =
      Inl RecursionError"
proof -
  have o: "ser open_session = Some (Serial ''/dev/ttyUSB0'')"
    by (simp add: open_session_def)
  have n: "list_all is_nack [(0x05, []), (0x07, [0x78])]"
    by (simp add: is_nack_def)
  have a: "\<forall>x \<in> sset (sconst (Some [0x02, 0x00, 0x05 :: byte])).
      \<exists>r. x = nack_frame r \<and> is_nack r"
    by (simp add: nack_frame_def is_nack_def)
  show ?thesis
    using get_last_error_nonzero_status [OF o n, where m = "[0x62, 0x6F, 0x6F, 0x6D]"
        and w = "world_with (sconst None)" and rest = "sconst None" and depth = 1000
        and s = "sconst (Some [0x02, 0x00, 0x05])"] o n a
    by (simp add: world_with_def nack_frame_def ascii_chars str_nat_digits numeral_3_eq_3)
qed

subsection \<open>One step of the string-valued commands on an open session\<close>

lemma get_app_sw_version_timeout:
  "ser self = Some h \<Longrightarrow> shd (rx w) = None \<Longrightarrow>
   get_app_sw_version self w =
     Some (Inl (TimeoutError ''_execute_request timeout''),
           w\<lparr>tx := tx w @ [\<lparr>packet_type = 0xF2, payload = [0x0A, 0x01]\<rparr>], rx := stl (rx w)\<rparr>)"
  by (simp add: get_app_sw_version_def request_packets execute_request_timeout)

lemma get_app_sw_name_timeout:
  "ser self = Some h \<Longrightarrow> shd (rx w) = None \<Longrightarrow>
   get_app_sw_name self w =
     Some (Inl (TimeoutError ''_execute_request timeout''),
           w\<lparr>tx := tx w @ [\<lparr>packet_type = 0xF2, payload = [0x0B, 0x01]\<rparr>], rx := stl (rx w)\<rparr>)"
  by (simp add: get_app_sw_name_def request_packets execute_request_timeout)

lemma get_app_sw_version_ack:
  "ser self = Some h \<Longrightarrow> shd (rx w) = Some (0x0A # 0x01 # 0 # d) \<Longrightarrow>
   list_all (\<lambda>b. b < 128) d \<Longrightarrow>
   get_app_sw_version self w =
     Some (Inr (map (\<lambda>b. char_of (unat b)) d),
           w\<lparr>tx := tx w @ [\<lparr>packet_type = 0xF2, payload = [0x0A, 0x01]\<rparr>], rx := stl (rx w)\<rparr>)"
  by (simp add: get_app_sw_version_def request_packets execute_request_frame
      get_command_packet_cases get_status_def decode_ascii_def)

lemma get_app_sw_name_ack:
  "ser self = Some h \<Longrightarrow> shd (rx w) = Some (0x0B # 0x01 # 0 # d) \<Longrightarrow>
   list_all (\<lambda>b. b < 128) d \<Longrightarrow>
   get_app_sw_name self w =
     Some (Inr (map (\<lambda>b. char_of (unat b)) d),
           w\<lparr>tx := tx w @ [\<lparr>packet_type = 0xF2, payload = [0x0B, 0x01]\<rparr>], rx := stl (rx w)\<rparr>)"
  by (simp add: get_app_sw_name_def request_packets execute_request_frame
      get_command_packet_cases get_status_def decode_ascii_def)

lemma get_app_sw_version_nack:
  "ser self = Some h \<Longrightarrow> shd (rx w) = Some (0x0A # 0x01 # st # d) \<Longrightarrow> st \<noteq> 0 \<Longrightarrow>
   list_all (\<lambda>b. b < 128) d \<Longrightarrow>
   get_app_sw_version self w =
     Option.bind
       (get_last_error self
          (w\<lparr>tx := tx w @ [\<lparr>packet_type = 0xF2, payload = [0x0A, 0x01]\<rparr>], rx := stl (rx w)\<rparr>))
       (raise_command_failed (unat st))"
  by (simp add: get_app_sw_version_def request_packets execute_request_frame
      get_command_packet_cases get_status_def decode_ascii_def unat_eq_0)

lemma get_app_sw_name_nack:
  "ser self = Some h \<Longrightarrow> shd (rx w) = Some (0x0B # 0x01 # st # d) \<Longrightarrow> st \<noteq> 0 \<Longrightarrow>
   list_all (\<lambda>b. b < 128) d \<Longrightarrow>
   get_app_sw_name self w =
     Option.bind
       (get_last_error self
          (w\<lparr>tx := tx w @ [\<lparr>packet_type = 0xF2, payload = [0x0B, 0x01]\<rparr>], rx := stl (rx w)\<rparr>))
       (raise_command_failed (unat st))"
  by (simp add: get_app_sw_name_def request_packets execute_request_frame
      get_command_packet_cases get_status_def decode_ascii_def unat_eq_0)

subsection \<open>C5: a timeout\<close>

text \<open>
  C5. On an open session, when the wait ends without a frame, \<open>_execute_request\<close> and
  with it each of the three commands raises \<open>TimeoutError\<close>, which is not a
  \<open>CommandFailed\<close>. The request has been written once and nothing else: there is no
  retry. The serial handle stays held and the reader alive, the session object is not
  assigned to, and a call made next on the same session is served: a version request that
  now gets its reply returns the version.
\<close>

theorem timeout_keeps_session:
  assumes "ser self = Some h"
  shows "execute_request self p (w\<lparr>rx := None ## rest\<rparr>) =
           (Inl (TimeoutError ''_execute_request timeout''), w\<lparr>tx := tx w @ [p], rx := rest\<rparr>)
       \<and> get_last_error self (w\<lparr>rx := None ## rest\<rparr>) =
           Some (Inl (TimeoutError ''_execute_request timeout''),
                 w\<lparr>tx := tx w @ [\<lparr>packet_type = 0xF2, payload = [0x02, 0x00]\<rparr>], rx := rest\<rparr>)
       \<and> get_app_sw_version self (w\<lparr>rx := None ## rest\<rparr>) =
           Some (Inl (TimeoutError ''_execute_request timeout''),
                 w\<lparr>tx := tx w @ [\<lparr>packet_type = 0xF2, payload = [0x0A, 0x01]\<rparr>], rx := rest\<rparr>)
       \<and> get_app_sw_name self (w\<lparr>rx := None ## rest\<rparr>) =
           Some (Inl (TimeoutError ''_execute_request timeout''),
                 w\<lparr>tx := tx w @ [\<lparr>packet_type = 0xF2, payload = [0x0B, 0x01]\<rparr>], rx := rest\<rparr>)
       \<and> (\<forall>msg. TimeoutError ''_execute_request timeout'' \<noteq> CommandFailed msg)
       \<and> held (snd (execute_request self p (w\<lparr>rx := None ## rest\<rparr>))) = held w
       \<and> reader_alive (snd (execute_request self p (w\<lparr>rx := None ## rest\<rparr>))) = reader_alive w
       \<and> (list_all (\<lambda>b. b < 128) d \<longrightarrow>
            get_app_sw_version self
              (snd (execute_request self p (w\<lparr>rx := None ## Some (0x0A # 0x01 # 0 # d) ## rest\<rparr>))) =
            Some (Inr (map (\<lambda>b. char_of (unat b)) d),
                  w\<lparr>tx := tx w @ [p, \<lparr>packet_type = 0xF2, payload = [0x0A, 0x01]\<rparr>], rx := rest\<rparr>))"
proof -
  have e: "\<And>r. execute_request self p (w\<lparr>rx := None ## r\<rparr>) =
      (Inl (TimeoutError ''_execute_request timeout''), w\<lparr>tx := tx w @ [p], rx := r\<rparr>)"
    using execute_request_timeout [OF assms] by simp
  have g: "get_last_error self (w\<lparr>rx := None ## rest\<rparr>) =
      Some (Inl (TimeoutError ''_execute_request timeout''),
            w\<lparr>tx := tx w @ [\<lparr>packet_type = 0xF2, payload = [0x02, 0x00]\<rparr>], rx := rest\<rparr>)"
    using get_last_error_timeout [OF assms, of "w\<lparr>rx := None ## rest\<rparr>"] by simp
  have v: "get_app_sw_version self (w\<lparr>rx := None ## rest\<rparr>) =
      Some (Inl (TimeoutError ''_execute_request timeout''),
            w\<lparr>tx := tx w @ [\<lparr>packet_type = 0xF2, payload = [0x0A, 0x01]\<rparr>], rx := rest\<rparr>)"
    using get_app_sw_version_timeout [OF assms, of "w\<lparr>rx := None ## rest\<rparr>"] by simp
  have n: "get_app_sw_name self (w\<lparr>rx := None ## rest\<rparr>) =
      Some (Inl (TimeoutError ''_execute_request timeout''),
            w\<lparr>tx := tx w @ [\<lparr>packet_type = 0xF2, payload = [0x0B, 0x01]\<rparr>], rx := rest\<rparr>)"
    using get_app_sw_name_timeout [OF assms, of "w\<lparr>rx := None ## rest\<rparr>"] by simp
  have next_call: "list_all (\<lambda>b. b < 128) d \<Longrightarrow>
      get_app_sw_version self (w\<lparr>tx := tx w @ [p], rx := Some (0x0A # 0x01 # 0 # d) ## rest\<rparr>) =
      Some (Inr (map (\<lambda>b. char_of (unat b)) d),
            w\<lparr>tx := tx w @ [p, \<lparr>packet_type = 0xF2, payload = [0x0A, 0x01]\<rparr>], rx := rest\<rparr>)"
    using get_app_sw_version_ack [OF assms,
        of "w\<lparr>tx := tx w @ [p], rx := Some (0x0A # 0x01 # 0 # d) ## rest\<rparr>" d]
    by simp
  show ?thesis
    by (simp add: e g v n next_call)
qed

theorem timeout_keeps_session_witness:
  "ser open_session = Some (Serial ''/dev/ttyUSB0'')
   \<and> get_app_sw_name open_session (world_with (None ## sconst None)) =
       Some (Inl (TimeoutError ''_execute_request timeout''),
             \<lparr>held = [''/dev/ttyUSB0''], reader_alive = True,
              tx = [\<lparr>packet_type = 0xF2, payload = [0x0B, 0x01]\<rparr>], rx = sconst None\<rparr>)
   \<and> get_app_sw_version open_session
        (snd (execute_request open_session \<lparr>packet_type = 0xF2, payload = [0x0B, 0x01]\<rparr>
           (world_with (None ## Some [0x0A, 0x01, 0x00, 0x32, 0x2E, 0x31] ## sconst None)))) =
       Some (Inr ''2.1'',
             \<lparr>held = [''/dev/ttyUSB0''], reader_alive = True,
              tx = [\<lparr>packet_type = 0xF2, payload = [0x0B, 0x01]\<rparr>,
                    \<lparr>packet_type = 0xF2, payload = [0x0A, 0x01]\<rparr>],
              rx = sconst None\<rparr>)"
proof -
  have o: "ser open_session = Some (Serial ''/dev/ttyUSB0'')"
    by (simp add: open_session_def)
  show ?thesis
    using timeout_keeps_session [OF o, where w = "world_with (sconst None)"
        and rest = "sconst None" and d = "[0x32, 0x2E, 0x31]"
        and p = "\<lparr>packet_type = 0xF2, payload = [0x0B, 0x01]\<rparr>"] o
    by (simp add: world_with_def ascii_chars)
qed

subsection \<open>C6: the status byte of a response\<close>

text \<open>
  C6, as stated, fails. A name request is answered with status 3. When the
  get-last-error request that follows is answered with status 5 and then with status 0
  and text \<open>boom\<close>, two get-last-error requests have been sent and the exception raised
  carries the code 5, not 3; when it is not answered at all, the call raises
  \<open>TimeoutError\<close>, not \<open>CommandFailed\<close>.
\<close>

theorem command_failed_once_counterexample:
  "get_app_sw_name open_session
     (world_with (Some [0x0B, 0x01, 0x03] ## Some [0x02, 0x00, 0x05] ##
        Some [0x02, 0x00, 0x00, 0x62, 0x6F, 0x6F, 0x6D] ## sconst None)) =
   Some (Inl (CommandFailed ''Command failed with code 5 [boom]''),
         \<lparr>held = [''/dev/ttyUSB0''], reader_alive = True,
          tx = [\<lparr>packet_type = 0xF2, payload = [0x0B, 0x01]\<rparr>,
                \<lparr>packet_type = 0xF2, payload = [0x02, 0x00]\<rparr>,
                \<lparr>packet_type = 0xF2, payload = [0x02, 0x00]\<rparr>],
          rx = sconst None\<rparr>)
   \<and> get_app_sw_name open_session (world_with (Some [0x0B, 0x01, 0x03] ## sconst None)) =
   Some (Inl (TimeoutError ''_execute_request timeout''),
         \<lparr>held = [''/dev/ttyUSB0''], reader_alive = True,
          tx = [\<lparr>packet_type = 0xF2, payload = [0x0B, 0x01]\<rparr>,
                \<lparr>packet_type = 0xF2, payload = [0x02, 0x00]\<rparr>],
          rx = sconst None\<rparr>)"
proof -
  let ?name = "\<lparr>packet_type = 0xF2, payload = [0x0B, 0x01 :: byte]\<rparr>"
  let ?req = "\<lparr>packet_type = 0xF2, payload = [0x02, 0x00 :: byte]\<rparr>"
  let ?base = "\<lparr>held = [''/dev/ttyUSB0''], reader_alive = True, tx = [], rx = sconst None\<rparr>"
  have o: "ser open_session = Some (Serial ''/dev/ttyUSB0'')"
    by (simp add: open_session_def)
  have third: "get_last_error open_session
      (?base\<lparr>tx := [?name, ?req], rx := Some [0x02, 0x00, 0x00, 0x62, 0x6F, 0x6F, 0x6D] ## sconst None\<rparr>) =
      Some (Inr ''boom'', ?base\<lparr>tx := [?name, ?req, ?req]\<rparr>)"
    using get_last_error_ack [OF o, where d = "[0x62, 0x6F, 0x6F, 0x6D]"
        and w = "?base\<lparr>tx := [?name, ?req],
          rx := Some [0x02, 0x00, 0x00, 0x62, 0x6F, 0x6F, 0x6D] ## sconst None\<rparr>"]
    by (simp add: ascii_chars)
  have second: "get_last_error open_session
      (?base\<lparr>tx := [?name], rx := Some [0x02, 0x00, 0x05] ##
         Some [0x02, 0x00, 0x00, 0x62, 0x6F, 0x6F, 0x6D] ## sconst None\<rparr>) =
      Some (Inl (CommandFailed ''Command failed with code 5 [boom]''),
            ?base\<lparr>tx := [?name, ?req, ?req]\<rparr>)"
    using get_last_error_nack [OF o, where d = "[]" and st = "0x05"
        and w = "?base\<lparr>tx := [?name], rx := Some [0x02, 0x00, 0x05] ##
         Some [0x02, 0x00, 0x00, 0x62, 0x6F, 0x6F, 0x6D] ## sconst None\<rparr>"] third
    by (simp add: raise_command_failed_def command_failed_def str_nat_digits)
  have first: "get_app_sw_name open_session
      (?base\<lparr>rx := Some [0x0B, 0x01, 0x03] ## Some [0x02, 0x00, 0x05] ##
         Some [0x02, 0x00, 0x00, 0x62, 0x6F, 0x6F, 0x6D] ## sconst None\<rparr>) =
      Some (Inl (CommandFailed ''Command failed with code 5 [boom]''),
            ?base\<lparr>tx := [?name, ?req, ?req]\<rparr>)"
    using get_app_sw_name_nack [OF o, where d = "[]" and st = "0x03"
        and w = "?base\<lparr>rx := Some [0x0B, 0x01, 0x03] ## Some [0x02, 0x00, 0x05] ##
         Some [0x02, 0x00, 0x00, 0x62, 0x6F, 0x6F, 0x6D] ## sconst None\<rparr>"] second
    by (simp add: raise_command_failed_def)
  have silent: "get_last_error open_session (?base\<lparr>tx := [?name], rx := sconst None\<rparr>) =
      Some (Inl (TimeoutError ''_execute_request timeout''), ?base\<lparr>tx := [?name, ?req]\<rparr>)"
    using get_last_error_timeout [OF o, where w = "?base\<lparr>tx := [?name], rx := sconst None\<rparr>"]
    by simp
  have unanswered: "get_app_sw_name open_session
      (?base\<lparr>rx := Some [0x0B, 0x01, 0x03] ## sconst None\<rparr>) =
      Some (Inl (TimeoutError ''_execute_request timeout''), ?base\<lparr>tx := [?name, ?req]\<rparr>)"
    using get_app_sw_name_nack [OF o, where d = "[]" and st = "0x03"
        and w = "?base\<lparr>rx := Some [0x0B, 0x01, 0x03] ## sconst None\<rparr>"] silent
    by (simp add: raise_command_failed_def)
  from first unanswered show ?thesis
    by (simp add: world_with_def)
qed

text \<open>
  C6, amended. On an open session, for the name and the version command alike: a response
  with status 0 (and ASCII text) is returned decoded, the request being the only packet
  sent; a response with a nonzero status (and ASCII data) is followed by one
  get-last-error request, and when that request is answered with status 0 and the text
  \<open>m\<close> the call raises \<open>CommandFailed\<close> with the status of the first response and
  \<open>m\<close>, exactly two packets having been sent.
\<close>

theorem status_byte_handling:
  assumes "ser self = Some h" and "list_all (\<lambda>b. b < 128) d"
  shows "get_app_sw_name self (w\<lparr>rx := Some (0x0B # 0x01 # 0 # d) ## rest\<rparr>) =
           Some (Inr (map (\<lambda>b. char_of (unat b)) d),
                 w\<lparr>tx := tx w @ [\<lparr>packet_type = 0xF2, payload = [0x0B, 0x01]\<rparr>], rx := rest\<rparr>)
       \<and> get_app_sw_version self (w\<lparr>rx := Some (0x0A # 0x01 # 0 # d) ## rest\<rparr>) =
           Some (Inr (map (\<lambda>b. char_of (unat b)) d),
                 w\<lparr>tx := tx w @ [\<lparr>packet_type = 0xF2, payload = [0x0A, 0x01]\<rparr>], rx := rest\<rparr>)
       \<and> (st \<noteq> 0 \<and> list_all (\<lambda>b. b < 128) m \<longrightarrow>
            get_app_sw_name self
              (w\<lparr>rx := Some (0x0B # 0x01 # st # d) ## Some (0x02 # 0x00 # 0 # m) ## rest\<rparr>) =
            Some (Inl (CommandFailed
                    (''Command failed with code '' @ str_nat (unat st) @ '' ['' @
                     map (\<lambda>b. char_of (unat b)) m @ '']'')),
                  w\<lparr>tx := tx w @ [\<lparr>packet_type = 0xF2, payload = [0x0B, 0x01]\<rparr>,
                                   \<lparr>packet_type = 0xF2, payload = [0x02, 0x00]\<rparr>],
                     rx := rest\<rparr>)
          \<and> get_app_sw_version self
              (w\<lparr>rx := Some (0x0A # 0x01 # st # d) ## Some (0x02 # 0x00 # 0 # m) ## rest\<rparr>) =
            Some (Inl (CommandFailed
                    (''Command failed with code '' @ str_nat (unat st) @ '' ['' @
                     map (\<lambda>b. char_of (unat b)) m @ '']'')),
                  w\<lparr>tx := tx w @ [\<lparr>packet_type = 0xF2, payload = [0x0A, 0x01]\<rparr>,
                                   \<lparr>packet_type = 0xF2, payload = [0x02, 0x00]\<rparr>],
                     rx := rest\<rparr>))"
proof (intro conjI impI)
  show "get_app_sw_name self (w\<lparr>rx := Some (0x0B # 0x01 # 0 # d) ## rest\<rparr>) =
      Some (Inr (map (\<lambda>b. char_of (unat b)) d),
            w\<lparr>tx := tx w @ [\<lparr>packet_type = 0xF2, payload = [0x0B, 0x01]\<rparr>], rx := rest\<rparr>)"
    using get_app_sw_name_ack [OF assms(1) _ assms(2),
        of "w\<lparr>rx := Some (0x0B # 0x01 # 0 # d) ## rest\<rparr>"]
    by simp
  show "get_app_sw_version self (w\<lparr>rx := Some (0x0A # 0x01 # 0 # d) ## rest\<rparr>) =
      Some (Inr (map (\<lambda>b. char_of (unat b)) d),
            w\<lparr>tx := tx w @ [\<lparr>packet_type = 0xF2, payload = [0x0A, 0x01]\<rparr>], rx := rest\<rparr>)"
    using get_app_sw_version_ack [OF assms(1) _ assms(2),
        of "w\<lparr>rx := Some (0x0A # 0x01 # 0 # d) ## rest\<rparr>"]
    by simp
next
  assume a: "st \<noteq> 0 \<and> list_all (\<lambda>b. b < 128) m"
  have resolved: "\<And>p. get_last_error self
      (w\<lparr>tx := tx w @ [p], rx := Some (0x02 # 0x00 # 0 # m) ## rest\<rparr>) =
      Some (Inr (map (\<lambda>b. char_of (unat b)) m),
            w\<lparr>tx := tx w @ [p, \<lparr>packet_type = 0xF2, payload = [0x02, 0x00]\<rparr>], rx := rest\<rparr>)"
    using get_last_error_ack [OF assms(1), where d = m] a by simp
  show "get_app_sw_name self
      (w\<lparr>rx := Some (0x0B # 0x01 # st # d) ## Some (0x02 # 0x00 # 0 # m) ## rest\<rparr>) =
      Some (Inl (CommandFailed
              (''Command failed with code '' @ str_nat (unat st) @ '' ['' @
               map (\<lambda>b. char_of (unat b)) m @ '']'')),
            w\<lparr>tx := tx w @ [\<lparr>packet_type = 0xF2, payload = [0x0B, 0x01]\<rparr>,
                             \<lparr>packet_type = 0xF2, payload = [0x02, 0x00]\<rparr>],
               rx := rest\<rparr>)"
    using get_app_sw_name_nack [OF assms(1) _ _ assms(2), where st = st
        and w = "w\<lparr>rx := Some (0x0B # 0x01 # st # d) ## Some (0x02 # 0x00 # 0 # m) ## rest\<rparr>"] a
    by (simp add: resolved raise_command_failed_def command_failed_def)
  show "get_app_sw_version self
      (w\<lparr>rx := Some (0x0A # 0x01 # st # d) ## Some (0x02 # 0x00 # 0 # m) ## rest\<rparr>) =
      Some (Inl (CommandFailed
              (''Command failed with code '' @ str_nat (unat st) @ '' ['' @
               map (\<lambda>b. char_of (unat b)) m @ '']'')),
            w\<lparr>tx := tx w @ [\<lparr>packet_type = 0xF2, payload = [0x0A, 0x01]\<rparr>,
                             \<lparr>packet_type = 0xF2, payload = [0x02, 0x00]\<rparr>],
               rx := rest\<rparr>)"
    using get_app_sw_version_nack [OF assms(1) _ _ assms(2), where st = st
        and w = "w\<lparr>rx := Some (0x0A # 0x01 # st # d) ## Some (0x02 # 0x00 # 0 # m) ## rest\<rparr>"] a
    by (simp add: resolved raise_command_failed_def command_failed_def)
qed

theorem status_byte_handling_witness:
  "ser open_session = Some (Serial ''/dev/ttyUSB0'')
   \<and> list_all (\<lambda>b. b < 128) [0x6D, 0x6F :: byte]
   \<and> get_app_sw_name open_session
        (world_with (Some [0x0B, 0x01, 0x00, 0x6D, 0x6F] ## sconst None)) =
      Some (Inr ''mo'',
            \<lparr>held = [''/dev/ttyUSB0''], reader_alive = True,
             tx = [\<lparr>packet_type = 0xF2, payload = [0x0B, 0x01]\<rparr>], rx = sconst None\<rparr>)
   \<and> get_app_sw_name open_session
        (world_with (Some [0x0B, 0x01, 0x03, 0x6D, 0x6F] ##
           Some [0x02, 0x00, 0x00, 0x62, 0x6F, 0x6F, 0x6D] ## sconst None)) =
      Some (Inl (CommandFailed ''Command failed with code 3 [boom]''),
            \<lparr>held = [''/dev/ttyUSB0''], reader_alive = True,
             tx = [\<lparr>packet_type = 0xF2, payload = [0x0B, 0x01]\<rparr>,
                   \<lparr>packet_type = 0xF2, payload = [0x02, 0x00]\<rparr>],
             rx = sconst None\<rparr>)"
proof -
  have o: "ser open_session = Some (Serial ''/dev/ttyUSB0'')"
    by (simp add: open_session_def)
  have d: "list_all (\<lambda>b. b < 128) [0x6D, 0x6F :: byte]"
    by simp
  show ?thesis
    using status_byte_handling [OF o d, where w = "world_with (sconst None)"
        and rest = "sconst None" and st = "0x03" and m = "[0x62, 0x6F, 0x6F, 0x6D]"] o
    by (simp add: world_with_def ascii_chars str_nat_digits)
qed

subsection \<open>Facts about the codec\<close>

lemma byte_bound: "unat (b :: byte) < 256"
  using unsigned_less [of b, where ?'a = nat] by simp

lemma le16_bytes: "to_bytes_little (unat (a :: byte) + 256 * unat (b :: byte)) 2 = Inr [a, b]"
proof -
  have "unat a + 256 * unat b < 65536"
    using byte_bound [of a] byte_bound [of b] by simp
  moreover have "(unat a + 256 * unat b) mod 256 = unat a"
    using byte_bound [of a] by simp
  moreover have "(unat a + 256 * unat b) div 256 = unat b"
    using byte_bound [of a] by simp
  ultimately show ?thesis
    by (simp add: to_bytes_little_2)
qed

lemma three_bytes:
  assumes "3 \<le> length pl"
  obtains b0 b1 st d where "pl = b0 # b1 # st # d"
proof -
  from assms obtain b0 r0 where "pl = b0 # r0" by (cases pl) auto
  moreover with assms obtain b1 r1 where "r0 = b1 # r1" by (cases r0) auto
  moreover with assms calculation obtain st d where "r1 = st # d" by (cases r1) auto
  ultimately show ?thesis using that by simp
qed

subsection \<open>C9: the decoding of a response\<close>



subsection \<open>C3: encoding and decoding are inverse on the wire fields\<close>

text \<open>
  C3. A request built from a 16-bit \<open>command_id\<close> and parameter bytes, read with the
  frame decoder, gives back the same \<open>command_id\<close> and the same bytes. For a registered
  identifier, the wire form of a response with a status byte and result bytes decodes to
  the response class of that identifier, with that status and those bytes. In the other
  direction, writing the decoded identifier, status and remaining bytes of a frame of
  three bytes or more with the request encoder gives the frame back, and so does writing
  the decoded identifier and command payload of a frame of two bytes or more. Text
  decoded as ASCII has the result bytes as its character codes.
\<close>

theorem codec_round_trip:
  "(cid < 65536 \<longrightarrow>
      (\<exists>p. XcCommandRequestPacket cid params = Inr p
         \<and> command_id (XcCommandResponsePacket (payload p)) = cid
         \<and> command_payload (XcCommandResponsePacket (payload p)) = params))
   \<and> (command_packets cid \<noteq> None \<longrightarrow>
      (\<exists>p c. XcCommandRequestPacket cid (st # res) = Inr p
         \<and> get_command_packet (XcCommandResponsePacket (payload p)) = Inr c
         \<and> response_command_id c = cid
         \<and> get_status c = Inr (unat st)
         \<and> drop 1 (response_payload c) = res))
   \<and> (3 \<le> length y \<and> get_command_packet (XcCommandResponsePacket y) = Inr c
        \<and> get_status c = Inr s \<longrightarrow>
      XcCommandRequestPacket (response_command_id c) (of_nat s # drop 1 (response_payload c)) =
        Inr \<lparr>packet_type = 0xF2, payload = y\<rparr>)
   \<and> (2 \<le> length y \<longrightarrow>
      XcCommandRequestPacket (command_id (XcCommandResponsePacket y))
        (command_payload (XcCommandResponsePacket y)) =
        Inr \<lparr>packet_type = 0xF2, payload = y\<rparr>)
   \<and> (decode_ascii res = Inr t \<longrightarrow> map (\<lambda>c. of_nat (of_char c)) t = res)"
proof (intro conjI impI)
  assume "cid < 65536"
  then show "\<exists>p. XcCommandRequestPacket cid params = Inr p
      \<and> command_id (XcCommandResponsePacket (payload p)) = cid
      \<and> command_payload (XcCommandResponsePacket (payload p)) = params"
    by (simp add: XcCommandRequestPacket_def to_bytes_little_2 XcCommandResponsePacket_def
        le16_value)
next
  assume "command_packets cid \<noteq> None"
  then have "cid = 0x0002 \<or> cid = 0x010A \<or> cid = 0x010B"
    by (simp add: command_packets_def split: if_splits)
  then show "\<exists>p c. XcCommandRequestPacket cid (st # res) = Inr p
      \<and> get_command_packet (XcCommandResponsePacket (payload p)) = Inr c
      \<and> response_command_id c = cid
      \<and> get_status c = Inr (unat st)
      \<and> drop 1 (response_payload c) = res"
    by (elim disjE)
       (simp_all add: XcCommandRequestPacket_def to_bytes_little_2 get_command_packet_cases
          get_status_def)
next
  assume a: "3 \<le> length y \<and> get_command_packet (XcCommandResponsePacket y) = Inr c
      \<and> get_status c = Inr s"
  then obtain b0 b1 st d where y: "y = b0 # b1 # st # d"
    by (auto elim: three_bytes)
  from a have c: "response_command_id c = unat b0 + 256 * unat b1"
      "response_payload c = st # d"
    by (auto simp: y get_command_packet_cases Let_def split: if_splits)
  with a have "s = unat st"
    by (simp add: get_status_def)
  with c show "XcCommandRequestPacket (response_command_id c)
      (of_nat s # drop 1 (response_payload c)) = Inr \<lparr>packet_type = 0xF2, payload = y\<rparr>"
    by (simp add: XcCommandRequestPacket_def le16_bytes y)
next
  assume "2 \<le> length y"
  then obtain b0 r0 where "y = b0 # r0" by (cases y) auto
  moreover with \<open>2 \<le> length y\<close> obtain b1 d where "r0 = b1 # d" by (cases r0) auto
  ultimately have y: "y = b0 # b1 # d" by simp
  show "XcCommandRequestPacket (command_id (XcCommandResponsePacket y))
      (command_payload (XcCommandResponsePacket y)) = Inr \<lparr>packet_type = 0xF2, payload = y\<rparr>"
    by (simp add: XcCommandResponsePacket_def XcCommandRequestPacket_def le16_bytes y)
next
  assume "decode_ascii res = Inr t"
  then have "t = map (\<lambda>b. char_of (unat b)) res"
    by (simp add: decode_ascii_def split: if_splits)
  moreover have "\<And>b :: byte. (of_nat (of_char (char_of (unat b) :: char)) :: byte) = b"
    using byte_bound by (simp add: of_char_of)
  ultimately show "map (\<lambda>c. of_nat (of_char c)) t = res"
    by (simp add: map_idI)
qed

theorem codec_round_trip_witness:
  "(0x010A :: nat) < 65536
   \<and> command_packets 0x010A \<noteq> None
   \<and> XcCommandRequestPacket 0x010A [0x00, 0x32] = Inr \<lparr>packet_type = 0xF2, payload = [0x0A, 0x01, 0x00, 0x32]\<rparr>
   \<and> get_command_packet (XcCommandResponsePacket [0x0A, 0x01, 0x00, 0x32]) =
        Inr (GetAppSwVersionResponsePacket [0x00, 0x32])
   \<and> get_status (GetAppSwVersionResponsePacket [0x00, 0x32]) = Inr 0
   \<and> decode_ascii [0x32] = Inr ''2''
   \<and> XcCommandRequestPacket (response_command_id (GetAppSwVersionResponsePacket [0x00, 0x32]))
        (of_nat 0 # drop 1 (response_payload (GetAppSwVersionResponsePacket [0x00, 0x32]))) =
        Inr \<lparr>packet_type = 0xF2, payload = [0x0A, 0x01, 0x00, 0x32]\<rparr>"
proof -
  have d: "decode_ascii [0x32] = Inr ''2''"
    by (simp add: decode_ascii_def ascii_chars)
  have g: "get_command_packet (XcCommandResponsePacket [0x0A, 0x01, 0x00, 0x32]) =
      Inr (GetAppSwVersionResponsePacket [0x00, 0x32])"
    by (simp add: get_command_packet_cases)
  have s: "get_status (GetAppSwVersionResponsePacket [0x00, 0x32]) = Inr 0"
    by (simp add: get_status_def)
  have r: "command_packets 0x010A \<noteq> None"
    by (simp add: command_packets_def)
  show ?thesis
    using codec_round_trip [where cid = "0x010A" and params = "[0x00, 0x32]" and st = 0
        and res = "[0x32]" and y = "[0x0A, 0x01, 0x00, 0x32]"
        and c = "GetAppSwVersionResponsePacket [0x00, 0x32]" and s = 0 and t = "''2''"] d g s r
    by (simp add: XcCommandRequestPacket_def to_bytes_little_2)
qed

subsection \<open>C4: short payloads and unregistered identifiers\<close>

text \<open>
  C4, as stated, fails. A payload of two bytes, shorter than the header, that spells the
  identifier of get-last-error is decoded without any error, into a response with an empty
  command payload; the empty payload and a payload with the unregistered identifier
  \<open>0x1234\<close> end in the \<open>TypeError\<close> of calling \<open>None\<close>, not in an error type of the
  bridge.
\<close>

theorem short_payload_counterexample:
  "get_command_packet (XcCommandResponsePacket [0x02, 0x00]) = Inr (GetLastErrorResponsePacket [])
   \<and> get_command_packet (XcCommandResponsePacket []) = Inl TypeError
   \<and> get_command_packet (XcCommandResponsePacket [0x34, 0x12, 0x00]) = Inl TypeError"
  by (simp add: get_command_packet_cases)

text \<open>
  C4, amended. For a payload of fewer than three bytes, decoding and then reading the
  status fails with a built-in exception: \<open>get_command_packet\<close> raises \<open>TypeError\<close>
  when the identifier read from the bytes present is not registered, and otherwise it
  succeeds and \<open>get_status\<close> raises \<open>IndexError\<close>. For any payload whose identifier is
  absent from the table, \<open>get_command_packet\<close> raises \<open>TypeError\<close>.
\<close>

theorem short_or_unregistered_payload:
  "(length pl < 3 \<longrightarrow>
      (case get_command_packet (XcCommandResponsePacket pl) of
         Inl e \<Rightarrow> e = TypeError \<and> command_packets (command_id (XcCommandResponsePacket pl)) = None
       | Inr c \<Rightarrow> get_status c = Inl IndexError))
   \<and> (command_packets (command_id (XcCommandResponsePacket pl)) = None \<longrightarrow>
      get_command_packet (XcCommandResponsePacket pl) = Inl TypeError)"
proof (intro conjI impI)
  assume "length pl < 3"
  then have "drop 2 pl = []" by simp
  then show "case get_command_packet (XcCommandResponsePacket pl) of
       Inl e \<Rightarrow> e = TypeError \<and> command_packets (command_id (XcCommandResponsePacket pl)) = None
     | Inr c \<Rightarrow> get_status c = Inl IndexError"
    by (simp add: get_command_packet_def XcCommandResponsePacket_def command_packets_def
        get_status_def)
next
  assume "command_packets (command_id (XcCommandResponsePacket pl)) = None"
  then show "get_command_packet (XcCommandResponsePacket pl) = Inl TypeError"
    by (simp add: get_command_packet_def)
qed

theorem short_or_unregistered_payload_witness:
  "length [0x0B, 0x01 :: byte] < 3
   \<and> get_command_packet (XcCommandResponsePacket [0x0B, 0x01]) = Inr (GetAppSwNameResponsePacket [])
   \<and> get_status (GetAppSwNameResponsePacket []) = Inl IndexError
   \<and> command_packets (command_id (XcCommandResponsePacket [0x34, 0x12, 0x00])) = None
   \<and> get_command_packet (XcCommandResponsePacket [0x34, 0x12, 0x00]) = Inl TypeError"
proof -
  have g: "get_command_packet (XcCommandResponsePacket [0x0B, 0x01]) =
      Inr (GetAppSwNameResponsePacket [])"
    by (simp add: get_command_packet_cases)
  have u: "command_packets (command_id (XcCommandResponsePacket [0x34, 0x12, 0x00])) = None"
    by (simp add: XcCommandResponsePacket_def command_packets_def)
  show ?thesis
    using short_or_unregistered_payload [of "[0x0B, 0x01]"]
      short_or_unregistered_payload [of "[0x34, 0x12, 0x00]"] g u
    by simp
qed

subsection \<open>C2: a response with another command identifier\<close>

text \<open>
  C2, as stated, fails. A version request answered by a frame that carries the identifier
  of the name command: \<open>_execute_request\<close> raises nothing, it decodes the frame by the
  frame's own identifier and returns the name response as its result.
\<close>

theorem mismatched_response_counterexample:
  "execute_request open_session \<lparr>packet_type = 0xF2, payload = [0x0A, 0x01]\<rparr>
     (world_with (Some [0x0B, 0x01, 0x00, 0x6D, 0x6F] ## sconst None)) =
   (Inr (GetAppSwNameResponsePacket [0x00, 0x6D, 0x6F]),
    \<lparr>held = [''/dev/ttyUSB0''], reader_alive = True,
     tx = [\<lparr>packet_type = 0xF2, payload = [0x0A, 0x01]\<rparr>], rx = sconst None\<rparr>)"
proof -
  have o: "ser open_session = Some (Serial ''/dev/ttyUSB0'')"
    by (simp add: open_session_def)
  show ?thesis
    using execute_request_frame [OF o, where pl = "[0x0B, 0x01, 0x00, 0x6D, 0x6F]"
        and w = "world_with (Some [0x0B, 0x01, 0x00, 0x6D, 0x6F] ## sconst None)"]
    by (simp add: world_with_def get_command_packet_cases)
qed

text \<open>
  C2, amended. On an open session \<open>_execute_request\<close> compares no identifiers: whatever
  the request, the frame received is decoded by its own \<open>command_id\<close> and returned, or
  \<open>TypeError\<close> is raised when that identifier is not registered. Each of the three
  commands then fails on a frame whose \<open>command_id\<close> is not the one it requested, with
  \<open>TypeError\<close>, \<open>IndexError\<close> (no status byte) or \<open>AttributeError\<close> (the getter of
  another response class), after the one request and without a get-last-error call; the
  content of such a frame is never the result of the call.
\<close>

theorem mismatched_response:
  assumes "ser self = Some h"
  shows "execute_request self p (w\<lparr>rx := Some pl ## rest\<rparr>) =
           (get_command_packet (XcCommandResponsePacket pl), w\<lparr>tx := tx w @ [p], rx := rest\<rparr>)
       \<and> (command_id (XcCommandResponsePacket pl) \<noteq> 0x0002 \<longrightarrow>
            (\<exists>e \<in> {TypeError, IndexError, AttributeError}.
               get_last_error self (w\<lparr>rx := Some pl ## rest\<rparr>) =
               Some (Inl e, w\<lparr>tx := tx w @ [\<lparr>packet_type = 0xF2, payload = [0x02, 0x00]\<rparr>],
                              rx := rest\<rparr>)))
       \<and> (command_id (XcCommandResponsePacket pl) \<noteq> 0x010A \<longrightarrow>
            (\<exists>e \<in> {TypeError, IndexError, AttributeError}.
               get_app_sw_version self (w\<lparr>rx := Some pl ## rest\<rparr>) =
               Some (Inl e, w\<lparr>tx := tx w @ [\<lparr>packet_type = 0xF2, payload = [0x0A, 0x01]\<rparr>],
                              rx := rest\<rparr>)))
       \<and> (command_id (XcCommandResponsePacket pl) \<noteq> 0x010B \<longrightarrow>
            (\<exists>e \<in> {TypeError, IndexError, AttributeError}.
               get_app_sw_name self (w\<lparr>rx := Some pl ## rest\<rparr>) =
               Some (Inl e, w\<lparr>tx := tx w @ [\<lparr>packet_type = 0xF2, payload = [0x0B, 0x01]\<rparr>],
                              rx := rest\<rparr>)))"
proof -
  have e: "\<And>p. execute_request self p (w\<lparr>rx := Some pl ## rest\<rparr>) =
      (get_command_packet (XcCommandResponsePacket pl), w\<lparr>tx := tx w @ [p], rx := rest\<rparr>)"
    using execute_request_frame [OF assms, where pl = pl and w = "w\<lparr>rx := Some pl ## rest\<rparr>"]
    by simp
  have cid: "command_id (XcCommandResponsePacket pl) = from_bytes_little (take 2 pl)"
    by (simp add: XcCommandResponsePacket_def)
  have g: "command_id (XcCommandResponsePacket pl) \<noteq> 0x0002 \<Longrightarrow>
      \<exists>e \<in> {TypeError, IndexError, AttributeError}.
        get_last_error self (w\<lparr>rx := Some pl ## rest\<rparr>) =
        Some (Inl e, w\<lparr>tx := tx w @ [\<lparr>packet_type = 0xF2, payload = [0x02, 0x00]\<rparr>], rx := rest\<rparr>)"
    by (subst get_last_error.simps)
       (simp add: cid request_packets e get_command_packet_cases get_status_def Let_def
          split: list.splits)
  have v: "command_id (XcCommandResponsePacket pl) \<noteq> 0x010A \<Longrightarrow>
      \<exists>e \<in> {TypeError, IndexError, AttributeError}.
        get_app_sw_version self (w\<lparr>rx := Some pl ## rest\<rparr>) =
        Some (Inl e, w\<lparr>tx := tx w @ [\<lparr>packet_type = 0xF2, payload = [0x0A, 0x01]\<rparr>], rx := rest\<rparr>)"
    by (simp add: get_app_sw_version_def cid request_packets e get_command_packet_cases
        get_status_def Let_def split: list.splits)
  have n: "command_id (XcCommandResponsePacket pl) \<noteq> 0x010B \<Longrightarrow>
      \<exists>e \<in> {TypeError, IndexError, AttributeError}.
        get_app_sw_name self (w\<lparr>rx := Some pl ## rest\<rparr>) =
        Some (Inl e, w\<lparr>tx := tx w @ [\<lparr>packet_type = 0xF2, payload = [0x0B, 0x01]\<rparr>], rx := rest\<rparr>)"
    by (simp add: get_app_sw_name_def cid request_packets e get_command_packet_cases
        get_status_def Let_def split: list.splits)
  from e g v n show ?thesis
    by blast
qed

theorem mismatched_response_witness:
  "ser open_session = Some (Serial ''/dev/ttyUSB0'')
   \<and> command_id (XcCommandResponsePacket [0x0B, 0x01, 0x00, 0x6D, 0x6F]) \<noteq> 0x010A
   \<and> get_app_sw_version open_session
        (world_with (Some [0x0B, 0x01, 0x00, 0x6D, 0x6F] ## sconst None)) =
      Some (Inl AttributeError,
            \<lparr>held = [''/dev/ttyUSB0''], reader_alive = True,
             tx = [\<lparr>packet_type = 0xF2, payload = [0x0A, 0x01]\<rparr>], rx = sconst None\<rparr>)"
proof -
  have o: "ser open_session = Some (Serial ''/dev/ttyUSB0'')"
    by (simp add: open_session_def)
  have c: "command_id (XcCommandResponsePacket [0x0B, 0x01, 0x00, 0x6D, 0x6F]) \<noteq> 0x010A"
    by (simp add: XcCommandResponsePacket_def)
  have not_other: "get_app_sw_version open_session
      (world_with (Some [0x0B, 0x01, 0x00, 0x6D, 0x6F] ## sconst None)) \<noteq>
      Some (Inl e, w')" if "e = TypeError \<or> e = IndexError" for e w'
    using that o
    by (auto simp: get_app_sw_version_def request_packets execute_request_frame world_with_def
        get_command_packet_cases get_status_def)
  show ?thesis
    using mismatched_response [OF o, where pl = "[0x0B, 0x01, 0x00, 0x6D, 0x6F]"
        and w = "world_with (sconst None)" and rest = "sconst None"] o c not_other
    by (auto simp: world_with_def)
qed

subsection \<open>C7: after \<open>close\<close>\<close>

text \<open>
  C7, as stated, fails. Once the open session has been closed, a command call raises
  \<open>AttributeError\<close>, the serial handle being \<open>None\<close>: the bridge has no error of its
  own for a closed session. A second \<open>close\<close> raises \<open>AttributeError\<close> as well.
\<close>

theorem after_close_counterexample:
  "close open_session (world_with (sconst None)) =
     (Inr (), \<lparr>ser = None, reader_started = False\<rparr>,
      \<lparr>held = [], reader_alive = False, tx = [], rx = sconst None\<rparr>)
   \<and> get_app_sw_version \<lparr>ser = None, reader_started = False\<rparr>
        \<lparr>held = [], reader_alive = False, tx = [], rx = sconst None\<rparr> =
      Some (Inl AttributeError, \<lparr>held = [], reader_alive = False, tx = [], rx = sconst None\<rparr>)
   \<and> close \<lparr>ser = None, reader_started = False\<rparr>
        \<lparr>held = [], reader_alive = False, tx = [], rx = sconst None\<rparr> =
      (Inl AttributeError, \<lparr>ser = None, reader_started = False\<rparr>,
       \<lparr>held = [], reader_alive = False, tx = [], rx = sconst None\<rparr>)"
  by (simp add: close_def stop_def open_session_def world_with_def get_app_sw_version_def
      request_packets execute_request_closed)

text \<open>
  C7, amended. After a \<open>close\<close> that succeeded the session holds no serial handle and
  its reader is marked stopped; \<open>stop\<close> on it is a no-op that changes neither the
  session nor the environment and raises nothing; and every command call on it fails
  with \<open>AttributeError\<close>, nothing being sent and no frame being taken.
\<close>

theorem calls_after_close:
  assumes "close self w = (Inr u, self', w')"
  shows "ser self' = None \<and> reader_started self' = False
       \<and> stop self' w' = (self', w')
       \<and> get_last_error self' w' = Some (Inl AttributeError, w')
       \<and> get_app_sw_version self' w' = Some (Inl AttributeError, w')
       \<and> get_app_sw_name self' w' = Some (Inl AttributeError, w')
       \<and> dfu_reboot self' w' = (Inl AttributeError, w')"
proof -
  from assms have closed: "ser self' = None" and stopped: "reader_started self' = False"
    by (auto simp: close_def stop_def split: if_splits option.splits serial.splits)
  have "get_last_error self' w' = Some (Inl AttributeError, w')"
    by (subst get_last_error.simps) (simp add: request_packets execute_request_closed closed)
  with closed stopped show ?thesis
    by (simp add: stop_def get_app_sw_version_def get_app_sw_name_def dfu_reboot_def
        request_packets execute_request_closed send_packet_def)
qed

theorem calls_after_close_witness:
  "close open_session (world_with (sconst None)) =
     (Inr (), \<lparr>ser = None, reader_started = False\<rparr>,
      \<lparr>held = [], reader_alive = False, tx = [], rx = sconst None\<rparr>)
   \<and> get_app_sw_name \<lparr>ser = None, reader_started = False\<rparr>
        \<lparr>held = [], reader_alive = False, tx = [], rx = sconst None\<rparr> =
      Some (Inl AttributeError, \<lparr>held = [], reader_alive = False, tx = [], rx = sconst None\<rparr>)
   \<and> stop \<lparr>ser = None, reader_started = False\<rparr>
        \<lparr>held = [], reader_alive = False, tx = [], rx = sconst None\<rparr> =
      (\<lparr>ser = None, reader_started = False\<rparr>,
       \<lparr>held = [], reader_alive = False, tx = [], rx = sconst None\<rparr>)"
proof -
  have c: "close open_session (world_with (sconst None)) =
      (Inr (), \<lparr>ser = None, reader_started = False\<rparr>,
       \<lparr>held = [], reader_alive = False, tx = [], rx = sconst None\<rparr>)"
    by (simp add: close_def stop_def open_session_def world_with_def)
  show ?thesis
    using calls_after_close [OF c] c by simp
qed

end
